theory Spec2Isabelle
  imports Complex_Main "HOL-Library.Multiset"
begin

section \<open>Values, responses and the environment of a request\<close>

text \<open>
  The server is an Express application with four routes. Each route handler is
  embedded as a function from the environment of one request and the history
  collection to a response and the collection afterwards.

  JavaScript values that travel through the handlers are values of \<open>json\<close>.
  Numbers are only copied by the handlers, never computed with, and are carried
  as rationals. \<open>JDate t\<close> is a \<open>Date\<close> holding the instant \<open>t\<close> (milliseconds since
  the epoch); \<open>res.json\<close> sends it as its ISO string, which is also what
  \<open>toISOString()\<close> gives. \<open>JObjectId n\<close> is the \<open>_id\<close> of a stored document.
  \<open>JUndefined\<close> is what reading an absent property gives.
\<close>

datatype json =
    JUndefined
  | JNull
  | JBool bool
  | JNum rat
  | JStr string
  | JDate int
  | JObjectId nat
  | JArr "json list"
  | JObj "(string \<times> json) list"

type_synonym obj = "(string \<times> json) list"

text \<open>Property read \<open>o.k\<close> on an object: the value, or \<open>undefined\<close>.\<close>

definition js_get :: "obj \<Rightarrow> string \<Rightarrow> json" where
  "js_get ob k = (case map_of ob k of None \<Rightarrow> JUndefined | Some v \<Rightarrow> v)"

text \<open>Property read on any value that is not \<open>null\<close> or \<open>undefined\<close>.\<close>

fun field :: "string \<Rightarrow> json \<Rightarrow> json" where
  "field k (JObj ob) = js_get ob k"
| "field k v = JUndefined"

fun keys :: "json \<Rightarrow> string list" where
  "keys (JObj ob) = map fst ob"
| "keys v = []"

text \<open>
  An object literal as \<open>res.json\<close> sends it: \<open>JSON.stringify\<close> leaves out every
  property whose value is \<open>undefined\<close>.
\<close>

definition sent_obj :: "obj \<Rightarrow> json" where
  "sent_obj ob = JObj (filter (\<lambda>kv. snd kv \<noteq> JUndefined) ob)"

record response =
  status :: nat
  body :: json

text \<open>
  A stored document of the \<open>History\<close> model (models/History.js), with the \<open>_id\<close>
  the store gives it.
\<close>

record history =
  hid :: nat
  coinId :: string
  name :: string
  symbol :: string
  price :: rat
  marketCap :: rat
  change24h :: rat
  timestamp :: int

text \<open>The collection: its documents in insertion order, and the next free \<open>_id\<close>.\<close>

record store =
  docs :: "history list"
  next_id :: nat

text \<open>The argument of \<open>History.create\<close> in the snapshot handler.\<close>

record create_doc =
  d_coinId :: json
  d_name :: json
  d_symbol :: json
  d_price :: json
  d_marketCap :: json
  d_change24h :: json
  d_timestamp :: int

text \<open>
  Everything a handler gets from outside the repository during one request:
  \<^item> \<open>upstream\<close>: what \<open>axios.get(COINGECKO_URL)\<close> settles to, the message of the
    rejection or \<open>response.data\<close>. The markets endpoint answers with an array
    of objects, and the model takes a fulfilled response to be one;
  \<^item> \<open>now\<close>: the instant \<open>new Date()\<close> reads;
  \<^item> \<open>create_rejects\<close>: whether \<open>History.create\<close> rejects this document on this
    collection, and with which message (schema validation and casting against
    models/History.js, or a failure of the database);
  \<^item> \<open>cast_String\<close>, \<open>cast_Number\<close>: Mongoose's casts to the schema types of an
    accepted document;
  \<^item> \<open>find_rejects\<close>: whether the query of the history route rejects, and with
    which message;
  \<^item> \<open>other_limit\<close>: what the query does with a limit that is not a natural
    number (\<open>None\<close> is \<open>NaN\<close>): it rejects, or it bounds the result by some
    count (\<open>None\<close>: no bound);
  \<^item> \<open>readyState\<close>: \<open>mongoose.connection.readyState\<close>.
\<close>

record env =
  upstream :: "string + obj list"
  now :: int
  create_rejects :: "create_doc \<Rightarrow> store \<Rightarrow> string option"
  cast_String :: "json \<Rightarrow> string"
  cast_Number :: "json \<Rightarrow> rat"
  find_rejects :: "string option"
  other_limit :: "int option \<Rightarrow> string + nat option"
  readyState :: int

section \<open>GET /api/coins\<close>

definition format_coin :: "obj \<Rightarrow> obj" where
  "format_coin coin =
     [(''id'', js_get coin ''id''),
      (''name'', js_get coin ''name''),
      (''symbol'', js_get coin ''symbol''),
      (''current_price'', js_get coin ''current_price''),
      (''market_cap'', js_get coin ''market_cap''),
      (''price_change_percentage_24h'', js_get coin ''price_change_percentage_24h''),
      (''last_updated'', js_get coin ''last_updated'')]"

definition get_coins :: "env \<Rightarrow> store \<Rightarrow> response \<times> store" where
  "get_coins e st =
     (case upstream e of
        Inr coins \<Rightarrow>
          (let formattedCoins = map format_coin coins
           in (\<lparr>status = 200, body = JArr (map sent_obj formattedCoins)\<rparr>, st))
      | Inl message \<Rightarrow>
          (\<lparr>status = 500,
            body = sent_obj
              [(''error'', JStr ''Failed to fetch coins data from CoinGecko''),
               (''details'', JStr message)]\<rparr>, st))"

section \<open>Health check\<close>

definition health :: "env \<Rightarrow> store \<Rightarrow> response \<times> store" where
  "health e st =
     (\<lparr>status = 200,
       body = sent_obj
         [(''status'', JStr ''OK''),
          (''timestamp'', JDate (now e)),
          (''database'',
             if readyState e = 1 then JStr ''Connected'' else JStr ''Disconnected''),
          (''endpoints'', sent_obj
             [(''GET /api/coins'', JStr ''Fetch live data from CoinGecko''),
              (''POST /api/history'', JStr ''Store snapshot in database''),
              (''GET /api/history/:coinId'', JStr ''Get historical data for chart'')])]\<rparr>,
      st)"

section \<open>POST /api/history\<close>

text \<open>
  \<open>History.create\<close>: the environment decides whether the write is rejected; a
  rejected write leaves the collection as it was, an accepted one appends the
  document, cast to the types of the schema, under a fresh \<open>_id\<close>.
\<close>

definition new_document :: "env \<Rightarrow> nat \<Rightarrow> create_doc \<Rightarrow> history" where
  "new_document e n d =
     \<lparr>hid = n,
      coinId = cast_String e (d_coinId d),
      name = cast_String e (d_name d),
      symbol = cast_String e (d_symbol d),
      price = cast_Number e (d_price d),
      marketCap = cast_Number e (d_marketCap d),
      change24h = cast_Number e (d_change24h d),
      timestamp = d_timestamp d\<rparr>"

definition History_create :: "env \<Rightarrow> create_doc \<Rightarrow> store \<Rightarrow> (string + history) \<times> store" where
  "History_create e d st =
     (case create_rejects e d st of
        Some message \<Rightarrow> (Inl message, st)
      | None \<Rightarrow>
          (let r = new_document e (next_id st) d
           in (Inr r, \<lparr>docs = docs st @ [r], next_id = Suc (next_id st)\<rparr>)))"

text \<open>The object literal the loop passes to \<open>History.create\<close> for one coin.\<close>

definition history_doc :: "int \<Rightarrow> obj \<Rightarrow> create_doc" where
  "history_doc ts coin =
     \<lparr>d_coinId = js_get coin ''id'',
      d_name = js_get coin ''name'',
      d_symbol = js_get coin ''symbol'',
      d_price = js_get coin ''current_price'',
      d_marketCap = js_get coin ''market_cap'',
      d_change24h = js_get coin ''price_change_percentage_24h'',
      d_timestamp = ts\<rparr>"

text \<open>
  The loop \<open>for (const coin of coins)\<close>: one awaited write per coin, in order;
  the first rejection leaves the loop (it is thrown to the handler's \<open>catch\<close>).
\<close>

fun save_each ::
  "env \<Rightarrow> int \<Rightarrow> obj list \<Rightarrow> history list \<Rightarrow> store \<Rightarrow> (string + history list) \<times> store" where
  "save_each e ts [] savedRecords st = (Inr savedRecords, st)"
| "save_each e ts (coin # coins) savedRecords st =
     (case History_create e (history_doc ts coin) st of
        (Inl message, st') \<Rightarrow> (Inl message, st')
      | (Inr historyRecord, st') \<Rightarrow>
          save_each e ts coins (savedRecords @ [historyRecord]) st')"

definition post_history :: "env \<Rightarrow> store \<Rightarrow> response \<times> store" where
  "post_history e st =
     (case upstream e of
        Inl message \<Rightarrow>
          (\<lparr>status = 500,
            body = sent_obj
              [(''success'', JBool False),
               (''error'', JStr ''Failed to store history snapshot''),
               (''details'', JStr message)]\<rparr>, st)
      | Inr coins \<Rightarrow>
          (let ts = now e
           in case save_each e ts coins [] st of
                (Inl message, st') \<Rightarrow>
                  (\<lparr>status = 500,
                    body = sent_obj
                      [(''success'', JBool False),
                       (''error'', JStr ''Failed to store history snapshot''),
                       (''details'', JStr message)]\<rparr>, st')
              | (Inr savedRecords, st') \<Rightarrow>
                  (\<lparr>status = 201,
                    body = sent_obj
                      [(''success'', JBool True),
                       (''message'', JStr ''Snapshot stored successfully''),
                       (''recordsCount'', JNum (of_nat (length savedRecords))),
                       (''timestamp'', JDate ts)]\<rparr>, st')))"

section \<open>GET /api/history/:coinId\<close>

text \<open>
  \<open>parseInt\<close> with no radix, on a string whose characters are code units below
  256: leading white space is skipped, a sign is read, a prefix \<open>0x\<close> or \<open>0X\<close>
  selects radix 16, and the longest run of digits of the radix is the value;
  with no digit the result is \<open>NaN\<close>, here \<open>None\<close>. (Beyond \<open>2^53\<close> JavaScript
  rounds the value to a double; the model keeps the integer.)
\<close>

definition is_ws :: "char \<Rightarrow> bool" where
  "is_ws c = (c \<in> set [CHR 0x09, CHR 0x0A, CHR 0x0B, CHR 0x0C, CHR 0x0D, CHR 0x20, CHR 0xA0])"

definition digit_of :: "char \<Rightarrow> nat option" where
  "digit_of c =
     (let n = (of_char c :: nat)
      in if 48 \<le> n \<and> n \<le> 57 then Some (n - 48)
         else if 97 \<le> n \<and> n \<le> 122 then Some (n - 87)
         else if 65 \<le> n \<and> n \<le> 90 then Some (n - 55)
         else None)"

fun radix_digits :: "nat \<Rightarrow> string \<Rightarrow> nat list" where
  "radix_digits R [] = []"
| "radix_digits R (c # cs) =
     (case digit_of c of
        None \<Rightarrow> []
      | Some d \<Rightarrow> if d < R then d # radix_digits R cs else [])"

fun strip_sign :: "string \<Rightarrow> int \<times> string" where
  "strip_sign [] = (1, [])"
| "strip_sign (c # cs) =
     (if c = CHR ''-'' then (- 1, cs) else if c = CHR ''+'' then (1, cs) else (1, c # cs))"

fun strip_prefix :: "string \<Rightarrow> nat \<times> string" where
  "strip_prefix (a # b # cs) =
     (if a = CHR ''0'' \<and> (b = CHR ''x'' \<or> b = CHR ''X'') then (16, cs) else (10, a # b # cs))"
| "strip_prefix cs = (10, cs)"

definition parseInt :: "string \<Rightarrow> int option" where
  "parseInt inputString =
     (let (sign, S) = strip_sign (dropWhile is_ws inputString);
          (R, S') = strip_prefix S;
          Z = radix_digits R S'
      in if Z = [] then None
         else Some (sign * int (foldl (\<lambda>a d. a * R + d) 0 Z)))"

text \<open>
  The bound \<open>.limit(n)\<close> puts on the result: a positive \<open>n\<close> keeps at most \<open>n\<close>
  documents, \<open>0\<close> is no limit; anything else is the environment's.
\<close>

definition query_limit :: "env \<Rightarrow> int option \<Rightarrow> string + nat option" where
  "query_limit e parsed =
     (case parsed of
        Some n \<Rightarrow>
          if 0 < n then Inr (Some (nat n))
          else if n = 0 then Inr None
          else other_limit e parsed
      | None \<Rightarrow> other_limit e parsed)"

text \<open>
  \<open>.select("price timestamp change24h")\<close>: an inclusive field list keeps the
  listed paths, and \<open>_id\<close>, which only \<open>-_id\<close> takes out.
\<close>

definition select_fields :: "history \<Rightarrow> obj" where
  "select_fields r =
     [(''_id'', JObjectId (hid r)),
      (''price'', JNum (price r)),
      (''timestamp'', JDate (timestamp r)),
      (''change24h'', JNum (change24h r))]"

text \<open>
  \<open>History.find({ coinId }).sort({ timestamp: -1 }).limit(n).select(...)\<close>,
  awaited: the documents of the coin, newest first, cut at the bound, projected.
  Documents of equal timestamp come in an order MongoDB does not fix; the model
  takes the one of a stable sort.
\<close>

definition History_find :: "env \<Rightarrow> store \<Rightarrow> string \<Rightarrow> int option \<Rightarrow> string + obj list" where
  "History_find e st cid parsed =
     (case find_rejects e of
        Some message \<Rightarrow> Inl message
      | None \<Rightarrow>
          (case query_limit e parsed of
             Inl message \<Rightarrow> Inl message
           | Inr bound \<Rightarrow>
               (let matched = filter (\<lambda>r. coinId r = cid) (docs st);
                    newest_first = sort_key (\<lambda>r. - timestamp r) matched;
                    limited = (case bound of None \<Rightarrow> newest_first
                               | Some n \<Rightarrow> take n newest_first)
                in Inr (map select_fields limited))))"

text \<open>
  The handler. \<open>limit\<close> is the query parameter, \<open>None\<close> when the request has
  none: the destructuring default is then the number \<open>24\<close>, which \<open>parseInt\<close>
  reads through its string \<open>"24"\<close>.
\<close>

definition get_history :: "env \<Rightarrow> string \<Rightarrow> string option \<Rightarrow> store \<Rightarrow> response \<times> store" where
  "get_history e cid limit st =
     (case History_find e st cid
             (parseInt (case limit of None \<Rightarrow> ''24'' | Some s \<Rightarrow> s)) of
        Inl message \<Rightarrow>
          (\<lparr>status = 500,
            body = sent_obj
              [(''error'', JStr ''Failed to fetch historical data''),
               (''details'', JStr message)]\<rparr>, st)
      | Inr history \<Rightarrow>
          if length history = 0 then
            (\<lparr>status = 404,
              body = sent_obj
                [(''error'', JStr ''No historical data found''),
                 (''message'', JStr (''No history found for '' @ cid @
                                    ''. Run POST /api/history first.'')),
                 (''coinId'', JStr cid)]\<rparr>, st)
          else
            (let reversedHistory = rev history
             in (\<lparr>status = 200,
                  body = sent_obj
                    [(''coinId'', JStr cid),
                     (''recordsCount'', JNum (of_nat (length reversedHistory))),
                     (''data'', JArr (map JObj reversedHistory))]\<rparr>, st)))"

section \<open>Vocabulary of the properties\<close>

text \<open>The seven fields of the public coin shape.\<close>

definition public_fields :: "string list" where
  "public_fields =
     [''id'', ''name'', ''symbol'', ''current_price'', ''market_cap'',
      ''price_change_percentage_24h'', ''last_updated'']"

text \<open>The stored documents of one coin, in insertion order.\<close>

definition stored_for :: "string \<Rightarrow> store \<Rightarrow> history list" where
  "stored_for cid st = filter (\<lambda>r. coinId r = cid) (docs st)"

text \<open>
  The documents that accepted writes of the coins \<open>cs\<close> add, the first under
  \<open>_id\<close> \<open>n\<close>, and the collection after them.
\<close>

fun written :: "env \<Rightarrow> int \<Rightarrow> nat \<Rightarrow> obj list \<Rightarrow> history list" where
  "written e ts n [] = []"
| "written e ts n (c # cs) = new_document e n (history_doc ts c) # written e ts (Suc n) cs"

definition store_after :: "env \<Rightarrow> int \<Rightarrow> store \<Rightarrow> obj list \<Rightarrow> store" where
  "store_after e ts st cs =
     \<lparr>docs = docs st @ written e ts (next_id st) cs, next_id = next_id st + length cs\<rparr>"

subsection \<open>A concrete environment and collection\<close>

definition coin_btc :: obj where
  "coin_btc =
     [(''id'', JStr ''bitcoin''), (''symbol'', JStr ''btc''), (''name'', JStr ''Bitcoin''),
      (''image'', JStr ''https://assets.example/btc.png''),
      (''current_price'', JNum 65000), (''market_cap'', JNum 1280000000000),
      (''market_cap_rank'', JNum 1),
      (''price_change_percentage_24h'', JNum (- 3 / 2)),
      (''last_updated'', JStr ''2024-05-01T10:00:00.000Z'')]"

definition coin_eth :: obj where
  "coin_eth =
     [(''id'', JStr ''ethereum''), (''symbol'', JStr ''eth''), (''name'', JStr ''Ethereum''),
      (''current_price'', JNum 3100), (''market_cap'', JNum 372000000000),
      (''market_cap_rank'', JNum 2),
      (''price_change_percentage_24h'', JNum (5 / 4)),
      (''last_updated'', JStr ''2024-05-01T10:00:01.000Z'')]"

text \<open>A coin the provider sends with no 24-hour change.\<close>

definition coin_new :: obj where
  "coin_new =
     [(''id'', JStr ''newcoin''), (''symbol'', JStr ''new''), (''name'', JStr ''Newcoin''),
      (''current_price'', JNum 2), (''market_cap'', JNum 900000),
      (''price_change_percentage_24h'', JNull)]"

text \<open>
  An environment where everything answers: a write is rejected only for a
  document whose 24-hour change is missing, as \<open>required: true\<close> of the schema
  has it.
\<close>

definition env_up :: env where
  "env_up =
     \<lparr>upstream = Inr [coin_btc, coin_eth],
      now = 1714557600000,
      create_rejects = (\<lambda>d st.
         if d_change24h d = JNull \<or> d_change24h d = JUndefined
         then Some ''History validation failed: change24h is required'' else None),
      cast_String = (\<lambda>v. case v of JStr s \<Rightarrow> s | _ \<Rightarrow> []),
      cast_Number = (\<lambda>v. case v of JNum x \<Rightarrow> x | _ \<Rightarrow> 0),
      find_rejects = None,
      other_limit = (\<lambda>n. Inl ''limit must be a non-negative number''),
      readyState = 1\<rparr>"

definition doc_a :: history where
  "doc_a = \<lparr>hid = 0, coinId = ''bitcoin'', name = ''Bitcoin'', symbol = ''btc'',
            price = 64000, marketCap = 1260000000000, change24h = 1 / 2,
            timestamp = 1714554000000\<rparr>"

definition doc_b :: history where
  "doc_b = \<lparr>hid = 1, coinId = ''ethereum'', name = ''Ethereum'', symbol = ''eth'',
            price = 3000, marketCap = 360000000000, change24h = 2,
            timestamp = 1714554000000\<rparr>"

definition doc_c :: history where
  "doc_c = \<lparr>hid = 2, coinId = ''bitcoin'', name = ''Bitcoin'', symbol = ''btc'',
            price = 63000, marketCap = 1240000000000, change24h = - 1,
            timestamp = 1714550400000\<rparr>"

text \<open>Three documents; the older bitcoin document was inserted last.\<close>

definition store3 :: store where
  "store3 = \<lparr>docs = [doc_a, doc_b, doc_c], next_id = 3\<rparr>"

section \<open>Objects as they are sent\<close>

lemma js_get_filter_defined:
  "js_get (filter (\<lambda>kv. snd kv \<noteq> JUndefined) ob) k = js_get ob k" if "distinct (map fst ob)"
  using that
proof (induction ob)
  case Nil
  then show ?case by simp
next
  case (Cons a ob)
  obtain k' v where a: "a = (k', v)" by (cases a)
  show ?case
  proof (cases "k' = k")
    case True
    with Cons.prems a have "map_of ob k = None"
      by (auto simp: map_of_eq_None_iff)
    moreover have "map_of (filter (\<lambda>kv. snd kv \<noteq> JUndefined) ob) k = None"
      using Cons.prems a True by (auto simp: map_of_eq_None_iff)
    ultimately show ?thesis using a True by (simp add: js_get_def)
  next
    case False
    with Cons a show ?thesis by (simp add: js_get_def)
  qed
qed

lemma field_sent_obj:
  "distinct (map fst ob) \<Longrightarrow> field k (sent_obj ob) = js_get ob k"
  by (simp add: sent_obj_def js_get_filter_defined)

lemma keys_sent_obj:
  "distinct (map fst ob) \<Longrightarrow>
   set (keys (sent_obj ob)) = {k \<in> set (map fst ob). js_get ob k \<noteq> JUndefined}"
proof -
  assume d: "distinct (map fst ob)"
  have "k \<in> set (keys (sent_obj ob)) \<longleftrightarrow>
        k \<in> set (map fst ob) \<and> js_get ob k \<noteq> JUndefined" for k
  proof
    assume "k \<in> set (keys (sent_obj ob))"
    then obtain v where kv: "(k, v) \<in> set ob" and v: "v \<noteq> JUndefined"
      by (auto simp: sent_obj_def)
    from d kv have "map_of ob k = Some v" by simp
    with kv v show "k \<in> set (map fst ob) \<and> js_get ob k \<noteq> JUndefined"
      by (force simp: js_get_def)
  next
    assume a: "k \<in> set (map fst ob) \<and> js_get ob k \<noteq> JUndefined"
    then obtain v where "map_of ob k = Some v" and "v \<noteq> JUndefined"
      by (auto simp: js_get_def split: option.splits)
    then have "(k, v) \<in> set ob" and "v \<noteq> JUndefined"
      by (auto dest: map_of_SomeD)
    then show "k \<in> set (keys (sent_obj ob))"
      by (force simp: sent_obj_def)
  qed
  then show ?thesis by blast
qed

lemma distinct_format_coin: "distinct (map fst (format_coin coin))"
  by (simp add: format_coin_def)

lemma distinct_public_fields: "distinct public_fields"
  by (simp add: public_fields_def)

lemma fst_format_coin: "map fst (format_coin coin) = public_fields"
  by (simp add: format_coin_def public_fields_def)

lemma js_get_format_coin:
  "k \<in> set public_fields \<Longrightarrow> js_get (format_coin coin) k = js_get coin k"
  by (auto simp: public_fields_def format_coin_def js_get_def)

text \<open>
  C5. A live-listing request that succeeds (status 200) had an upstream list,
  and answers with a list of the same length whose \<open>i\<close>-th item carries, for
  each of the seven public fields, the value the \<open>i\<close>-th upstream record has for
  it, and has no field besides those of the seven that the upstream record
  defines.
\<close>

theorem get_coins_lossless:
  assumes "status (fst (get_coins e st)) = 200"
  shows "\<exists>coins items.
           upstream e = Inr coins \<and>
           body (fst (get_coins e st)) = JArr items \<and>
           length items = length coins \<and>
           (\<forall>i<length coins.
              (\<forall>k\<in>set public_fields. field k (items ! i) = js_get (coins ! i) k) \<and>
              set (keys (items ! i)) =
                {k \<in> set public_fields. js_get (coins ! i) k \<noteq> JUndefined})"
proof (cases "upstream e")
  case (Inl message)
  with assms show ?thesis by (simp add: get_coins_def)
next
  case (Inr coins)
  let ?items = "map sent_obj (map format_coin coins)"
  have b: "body (fst (get_coins e st)) = JArr ?items"
    using Inr by (simp add: get_coins_def)
  have item: "(\<forall>k\<in>set public_fields. field k (sent_obj (format_coin c)) = js_get c k) \<and>
          set (keys (sent_obj (format_coin c))) =
            {k \<in> set public_fields. js_get c k \<noteq> JUndefined}" for c
  proof -
    have "field k (sent_obj (format_coin c)) = js_get (format_coin c) k" for k
      by (rule field_sent_obj) (rule distinct_format_coin)
    moreover have "set (keys (sent_obj (format_coin c))) =
        {k \<in> set public_fields. js_get (format_coin c) k \<noteq> JUndefined}"
      using keys_sent_obj [OF distinct_format_coin, of c] by (simp add: fst_format_coin)
    ultimately show ?thesis
      using js_get_format_coin [of _ c] by auto
  qed
  have "\<forall>i<length coins.
          (\<forall>k\<in>set public_fields. field k (?items ! i) = js_get (coins ! i) k) \<and>
          set (keys (?items ! i)) =
            {k \<in> set public_fields. js_get (coins ! i) k \<noteq> JUndefined}"
    using item by simp
  with Inr b show ?thesis by simp
qed

theorem get_coins_lossless_witness:
  "status (fst (get_coins env_up store3)) = 200 \<and>
   (\<exists>coins items.
      upstream env_up = Inr coins \<and>
      body (fst (get_coins env_up store3)) = JArr items \<and>
      length items = length coins \<and>
      (\<forall>i<length coins.
         (\<forall>k\<in>set public_fields. field k (items ! i) = js_get (coins ! i) k) \<and>
         set (keys (items ! i)) =
           {k \<in> set public_fields. js_get (coins ! i) k \<noteq> JUndefined}))"
proof -
  have ok: "status (fst (get_coins env_up store3)) = 200"
    by (simp add: get_coins_def env_up_def)
  from get_coins_lossless [OF ok] ok show ?thesis by blast
qed

text \<open>
  C8. The health route answers every request with status 200 and \<open>status\<close>
  \<open>"OK"\<close>; its \<open>database\<close> field is \<open>"Connected"\<close> exactly when the connection's
  ready state is 1 and \<open>"Disconnected"\<close> exactly when it is anything else. The
  collection is left alone, and the answer is the same whatever the collection
  holds and whatever a query, a write or the provider would do: nothing is
  probed.
\<close>

theorem health_always_ok:
  "status (fst (health e st)) = 200 \<and>
   field ''status'' (body (fst (health e st))) = JStr ''OK'' \<and>
   (field ''database'' (body (fst (health e st))) = JStr ''Connected'') = (readyState e = 1) \<and>
   (field ''database'' (body (fst (health e st))) = JStr ''Disconnected'') = (readyState e \<noteq> 1) \<and>
   snd (health e st) = st \<and>
   fst (health (e\<lparr>find_rejects := f, create_rejects := c, upstream := u\<rparr>) st') =
     fst (health e st)"
  by (simp add: health_def sent_obj_def js_get_def)

theorem health_always_ok_witness:
  "fst (health (env_up\<lparr>readyState := 0, find_rejects := Some ''not connected''\<rparr>) store3) =
     \<lparr>status = 200,
      body = JObj
        [(''status'', JStr ''OK''),
         (''timestamp'', JDate 1714557600000),
         (''database'', JStr ''Disconnected''),
         (''endpoints'', JObj
            [(''GET /api/coins'', JStr ''Fetch live data from CoinGecko''),
             (''POST /api/history'', JStr ''Store snapshot in database''),
             (''GET /api/history/:coinId'', JStr ''Get historical data for chart'')])]\<rparr> \<and>
   field ''database''
     (body (fst (health (env_up\<lparr>readyState := 0, find_rejects := Some ''not connected''\<rparr>) store3)))
     \<noteq> JStr ''Connected''"
  using health_always_ok
    [of "env_up\<lparr>readyState := 0, find_rejects := Some ''not connected''\<rparr>" store3]
  by (simp add: health_def sent_obj_def env_up_def)

text \<open>
  C9. The live-listing route leaves the collection as it was, whether the
  provider answered (status 200) or not (status 500, with \<open>error\<close> and the
  provider's message as \<open>details\<close>).
\<close>

theorem get_coins_no_write:
  "snd (get_coins e st) = st \<and>
   (case upstream e of
      Inr coins \<Rightarrow> status (fst (get_coins e st)) = 200
    | Inl message \<Rightarrow>
        fst (get_coins e st) =
          \<lparr>status = 500,
           body = JObj [(''error'', JStr ''Failed to fetch coins data from CoinGecko''),
                        (''details'', JStr message)]\<rparr>)"
  by (simp add: get_coins_def sent_obj_def split: sum.splits)

theorem get_coins_no_write_witness:
  "get_coins (env_up\<lparr>upstream := Inl ''Request failed with status code 429''\<rparr>) store3 =
     (\<lparr>status = 500,
       body = JObj [(''error'', JStr ''Failed to fetch coins data from CoinGecko''),
                    (''details'', JStr ''Request failed with status code 429'')]\<rparr>,
      store3)"
  using get_coins_no_write
    [of "env_up\<lparr>upstream := Inl ''Request failed with status code 429''\<rparr>" store3]
  by (simp add: env_up_def prod_eq_iff)

section \<open>The snapshot loop\<close>

lemma length_written: "length (written e ts n cs) = length cs"
  by (induction cs arbitrary: n) simp_all

lemma written_nth:
  "i < length cs \<Longrightarrow> written e ts n cs ! i = new_document e (n + i) (history_doc ts (cs ! i))"
proof (induction cs arbitrary: n i)
  case Nil
  then show ?case by simp
next
  case (Cons c cs)
  then show ?case by (cases i) simp_all
qed

lemma written_timestamp: "r \<in> set (written e ts n cs) \<Longrightarrow> timestamp r = ts"
  by (induction cs arbitrary: n) (auto simp: new_document_def history_doc_def)

lemma store_after_Nil: "store_after e ts st [] = st"
  by (simp add: store_after_def)

lemma store_after_Cons:
  "store_after e ts st (c # cs) = store_after e ts (store_after e ts st [c]) cs"
  by (simp add: store_after_def)

lemma save_each_Inr:
  "save_each e ts cs saved st = (Inr saved', st') \<Longrightarrow>
   saved' = saved @ written e ts (next_id st) cs \<and> st' = store_after e ts st cs"
proof (induction cs arbitrary: saved st)
  case Nil
  then show ?case by (simp add: store_after_Nil)
next
  case (Cons c cs)
  show ?case
  proof (cases "create_rejects e (history_doc ts c) st")
    case (Some message)
    with Cons.prems show ?thesis by (simp add: History_create_def)
  next
    case None
    let ?r = "new_document e (next_id st) (history_doc ts c)"
    let ?st1 = "store_after e ts st [c]"
    have step: "History_create e (history_doc ts c) st = (Inr ?r, ?st1)"
      using None by (simp add: History_create_def store_after_def Let_def)
    with Cons.prems have "save_each e ts cs (saved @ [?r]) ?st1 = (Inr saved', st')"
      by simp
    from Cons.IH [OF this]
    have "saved' = (saved @ [?r]) @ written e ts (next_id ?st1) cs"
      and "st' = store_after e ts ?st1 cs" by simp_all
    moreover have "next_id ?st1 = Suc (next_id st)" by (simp add: store_after_def)
    ultimately show ?thesis by (simp add: store_after_Cons [symmetric])
  qed
qed

lemma save_each_Inl:
  assumes "k < length cs"
    and "\<forall>i<k. create_rejects e (history_doc ts (cs ! i)) (store_after e ts st (take i cs)) = None"
    and "create_rejects e (history_doc ts (cs ! k)) (store_after e ts st (take k cs)) = Some message"
  shows "save_each e ts cs saved st = (Inl message, store_after e ts st (take k cs))"
  using assms
proof (induction cs arbitrary: k saved st)
  case Nil
  then show ?case by simp
next
  case (Cons c cs)
  show ?case
  proof (cases k)
    case 0
    with Cons.prems(3) show ?thesis
      by (simp add: store_after_Nil History_create_def)
  next
    case (Suc k')
    let ?r = "new_document e (next_id st) (history_doc ts c)"
    let ?st1 = "store_after e ts st [c]"
    from Cons.prems(2) Suc have "create_rejects e (history_doc ts c) st = None"
      by (auto simp: store_after_Nil dest: spec [of _ 0])
    then have step: "History_create e (history_doc ts c) st = (Inr ?r, ?st1)"
      by (simp add: History_create_def store_after_def Let_def)
    have k': "k' < length cs" using Cons.prems(1) Suc by simp
    have acc: "\<forall>i<k'. create_rejects e (history_doc ts (cs ! i))
                 (store_after e ts ?st1 (take i cs)) = None"
    proof (intro allI impI)
      fix i assume "i < k'"
      then have "Suc i < k" using Suc by simp
      with Cons.prems(2)
      have "create_rejects e (history_doc ts ((c # cs) ! Suc i))
              (store_after e ts st (take (Suc i) (c # cs))) = None" by blast
      then show "create_rejects e (history_doc ts (cs ! i))
              (store_after e ts ?st1 (take i cs)) = None"
        by (simp add: store_after_Cons [symmetric])
    qed
    have rej: "create_rejects e (history_doc ts (cs ! k'))
                 (store_after e ts ?st1 (take k' cs)) = Some message"
      using Cons.prems(3) Suc by (simp add: store_after_Cons [symmetric])
    from Cons.IH [OF k' acc rej, of "saved @ [?r]"] step Suc
    show ?thesis by (simp add: store_after_Cons [symmetric])
  qed
qed

text \<open>
  C1. A snapshot request that succeeds (status 201) fetched the upstream list
  \<open>coins\<close> and read the clock once. The collection afterwards is the collection
  before followed by one new document per coin, in the order of the list, the
  \<open>i\<close>-th made from the \<open>i\<close>-th coin; every new document carries the instant
  read. The body is \<open>success: true\<close>, the message, \<open>recordsCount\<close> equal to the
  number of coins, and that same instant as \<open>timestamp\<close>.
\<close>

theorem post_history_success:
  assumes "status (fst (post_history e st)) = 201"
  shows "\<exists>coins recs.
           upstream e = Inr coins \<and>
           docs (snd (post_history e st)) = docs st @ recs \<and>
           length recs = length coins \<and>
           (\<forall>i<length coins.
              recs ! i = new_document e (next_id st + i) (history_doc (now e) (coins ! i))) \<and>
           (\<forall>r\<in>set recs. timestamp r = now e) \<and>
           body (fst (post_history e st)) =
             JObj [(''success'', JBool True),
                   (''message'', JStr ''Snapshot stored successfully''),
                   (''recordsCount'', JNum (of_nat (length coins))),
                   (''timestamp'', JDate (now e))]"
proof (cases "upstream e")
  case (Inl message)
  with assms show ?thesis by (simp add: post_history_def)
next
  case (Inr coins)
  obtain res st' where loop: "save_each e (now e) coins [] st = (res, st')"
    by (cases "save_each e (now e) coins [] st")
  show ?thesis
  proof (cases res)
    case (Inl message)
    with assms Inr loop show ?thesis by (simp add: post_history_def)
  next
    case saved: (Inr savedRecords)
    let ?recs = "written e (now e) (next_id st) coins"
    from save_each_Inr [of e "now e" coins "[]" st savedRecords st'] loop saved
    have s: "savedRecords = ?recs" and st': "st' = store_after e (now e) st coins"
      by simp_all
    have ph: "post_history e st =
        (\<lparr>status = 201,
          body = JObj [(''success'', JBool True),
                   (''message'', JStr ''Snapshot stored successfully''),
                   (''recordsCount'', JNum (of_nat (length coins))),
                   (''timestamp'', JDate (now e))]\<rparr>, st')"
      using Inr loop saved s by (simp add: post_history_def sent_obj_def length_written)
    have "docs (snd (post_history e st)) = docs st @ ?recs"
      using ph st' by (simp add: store_after_def)
    moreover have "length ?recs = length coins" by (rule length_written)
    moreover have "\<forall>i<length coins.
        ?recs ! i = new_document e (next_id st + i) (history_doc (now e) (coins ! i))"
      by (simp add: written_nth)
    moreover have "\<forall>r\<in>set ?recs. timestamp r = now e"
      by (auto dest: written_timestamp)
    ultimately show ?thesis using Inr ph by auto
  qed
qed

theorem post_history_success_witness:
  "status (fst (post_history env_up store3)) = 201 \<and>
   (\<exists>recs.
      docs (snd (post_history env_up store3)) = docs store3 @ recs \<and>
      length recs = 2 \<and>
      (\<forall>r\<in>set recs. timestamp r = 1714557600000)) \<and>
   body (fst (post_history env_up store3)) =
     JObj [(''success'', JBool True),
           (''message'', JStr ''Snapshot stored successfully''),
           (''recordsCount'', JNum 2),
           (''timestamp'', JDate 1714557600000)]"
proof -
  have ok: "status (fst (post_history env_up store3)) = 201"
    by (simp add: post_history_def env_up_def History_create_def history_doc_def
        coin_btc_def coin_eth_def js_get_def Let_def sent_obj_def)
  have up: "upstream env_up = Inr [coin_btc, coin_eth]" and n: "now env_up = 1714557600000"
    by (simp_all add: env_up_def)
  from post_history_success [OF ok] up n ok show ?thesis
    by auto
qed

text \<open>
  C6. When the provider answered with \<open>coins\<close>, the writes for the first \<open>k\<close>
  coins are accepted and the write for coin \<open>k\<close> is rejected with \<open>message\<close>, the
  handler answers 500 with exactly \<open>success: false\<close>, \<open>error\<close> and \<open>details\<close> equal
  to \<open>message\<close>. The body has no \<open>recordsCount\<close>, and the collection afterwards
  still holds the \<open>k\<close> documents written before the rejection.
\<close>

theorem post_history_write_failure:
  assumes "upstream e = Inr coins"
    and "k < length coins"
    and "\<forall>i<k. create_rejects e (history_doc (now e) (coins ! i))
                  (store_after e (now e) st (take i coins)) = None"
    and "create_rejects e (history_doc (now e) (coins ! k))
           (store_after e (now e) st (take k coins)) = Some message"
  shows "post_history e st =
           (\<lparr>status = 500,
             body = JObj [(''success'', JBool False),
                          (''error'', JStr ''Failed to store history snapshot''),
                          (''details'', JStr message)]\<rparr>,
            store_after e (now e) st (take k coins)) \<and>
         field ''recordsCount'' (body (fst (post_history e st))) = JUndefined \<and>
         docs (snd (post_history e st)) = docs st @ written e (now e) (next_id st) (take k coins) \<and>
         length (written e (now e) (next_id st) (take k coins)) = k"
proof -
  have loop: "save_each e (now e) coins [] st =
      (Inl message, store_after e (now e) st (take k coins))"
    using assms(2-4) by (rule save_each_Inl)
  have ph: "post_history e st =
           (\<lparr>status = 500,
             body = JObj [(''success'', JBool False),
                          (''error'', JStr ''Failed to store history snapshot''),
                          (''details'', JStr message)]\<rparr>,
            store_after e (now e) st (take k coins))"
    using assms(1) loop by (simp add: post_history_def sent_obj_def)
  have "field ''recordsCount'' (body (fst (post_history e st))) = JUndefined"
    using ph by (simp add: js_get_def)
  moreover have "docs (snd (post_history e st)) =
      docs st @ written e (now e) (next_id st) (take k coins)"
    using ph by (simp add: store_after_def)
  moreover have "length (written e (now e) (next_id st) (take k coins)) = k"
    using assms(2) by (simp add: length_written)
  ultimately show ?thesis using ph by simp
qed

theorem post_history_write_failure_witness:
  "post_history (env_up\<lparr>upstream := Inr [coin_btc, coin_new, coin_eth]\<rparr>) store3 =
     (\<lparr>status = 500,
       body = JObj [(''success'', JBool False),
                    (''error'', JStr ''Failed to store history snapshot''),
                    (''details'', JStr ''History validation failed: change24h is required'')]\<rparr>,
      \<lparr>docs = [doc_a, doc_b, doc_c,
               \<lparr>hid = 3, coinId = ''bitcoin'', name = ''Bitcoin'', symbol = ''btc'',
                price = 65000, marketCap = 1280000000000, change24h = - 3 / 2,
                timestamp = 1714557600000\<rparr>],
       next_id = 4\<rparr>)"
proof -
  let ?e = "env_up\<lparr>upstream := Inr [coin_btc, coin_new, coin_eth]\<rparr>"
  have up: "upstream ?e = Inr [coin_btc, coin_new, coin_eth]" by simp
  have k: "(1::nat) < length [coin_btc, coin_new, coin_eth]" by simp
  have acc: "\<forall>i<1. create_rejects ?e (history_doc (now ?e) ([coin_btc, coin_new, coin_eth] ! i))
                  (store_after ?e (now ?e) store3 (take i [coin_btc, coin_new, coin_eth])) = None"
    by (simp add: env_up_def history_doc_def coin_btc_def js_get_def)
  have rej: "create_rejects ?e (history_doc (now ?e) ([coin_btc, coin_new, coin_eth] ! 1))
           (store_after ?e (now ?e) store3 (take 1 [coin_btc, coin_new, coin_eth])) =
           Some ''History validation failed: change24h is required''"
    by (simp add: env_up_def history_doc_def coin_new_def js_get_def)
  from post_history_write_failure [OF up k acc rej]
  show ?thesis
    by (simp add: store_after_def env_up_def store3_def new_document_def history_doc_def
        coin_btc_def js_get_def)
qed

section \<open>The history query\<close>

lemma newest_first_oldest_last:
  "sorted (map timestamp (rev (sort_key (\<lambda>r. - timestamp r) xs)))"
proof -
  have "sorted (map (\<lambda>r. - timestamp r) (sort_key (\<lambda>r. - timestamp r) xs))"
    by (rule sorted_sort_key)
  then show ?thesis
    by (simp add: sorted_wrt_map rev_map [symmetric] sorted_wrt_rev)
qed

lemma take_newest_oldest_last:
  "sorted (map timestamp (rev (take n (sort_key (\<lambda>r. - timestamp r) xs))))"
proof -
  have "sorted (map (\<lambda>r. - timestamp r) (take n (sort_key (\<lambda>r. - timestamp r) xs)))"
    unfolding take_map [symmetric] by (intro sorted_wrt_take sorted_sort_key)
  then show ?thesis
    by (simp add: sorted_wrt_map rev_map [symmetric] sorted_wrt_rev)
qed

lemma all_oldest_first:
  "map timestamp (rev (sort_key (\<lambda>r. - timestamp r) xs)) = sort (map timestamp xs)"
proof -
  have "mset (map timestamp (rev (sort_key (\<lambda>r. - timestamp r) xs))) = mset (map timestamp xs)"
    by simp
  then show ?thesis
    using newest_first_oldest_last [of xs] by (metis properties_for_sort)
qed

lemma field_select_fields:
  "field ''timestamp'' (JObj (select_fields r)) = JDate (timestamp r)"
  "keys (JObj (select_fields r)) = [''_id'', ''price'', ''timestamp'', ''change24h'']"
  "field ''_id'' (JObj (select_fields r)) = JObjectId (hid r)"
  by (simp_all add: select_fields_def js_get_def)

lemma js_get_select_timestamp:
  "js_get (select_fields r) ''timestamp'' = JDate (timestamp r)"
  by (simp add: select_fields_def js_get_def)

text \<open>What the query resolves to, when it does.\<close>

lemma History_find_Inr:
  assumes "History_find e st cid parsed = Inr h"
  shows "find_rejects e = None \<and>
         (\<exists>bound. query_limit e parsed = Inr bound \<and>
            h = map select_fields
                  (case bound of
                     None \<Rightarrow> sort_key (\<lambda>r. - timestamp r) (stored_for cid st)
                   | Some n \<Rightarrow> take n (sort_key (\<lambda>r. - timestamp r) (stored_for cid st))))"
  using assms
  by (auto simp: History_find_def stored_for_def Let_def split: option.splits sum.splits)

text \<open>The handler's answer, by what the query resolved to.\<close>

lemma get_history_200:
  assumes "status (fst (get_history e cid limit st)) = 200"
  shows "\<exists>h. History_find e st cid (parseInt (case limit of None \<Rightarrow> ''24'' | Some s \<Rightarrow> s)) = Inr h \<and>
             h \<noteq> [] \<and>
             get_history e cid limit st =
               (\<lparr>status = 200,
                 body = JObj [(''coinId'', JStr cid),
                              (''recordsCount'', JNum (of_nat (length h))),
                              (''data'', JArr (map JObj (rev h)))]\<rparr>, st)"
  using assms
  by (auto simp: get_history_def sent_obj_def Let_def split: sum.splits if_splits)

lemma rows_of_bound:
  "length (case bound of None \<Rightarrow> xs | Some n \<Rightarrow> take n xs) \<le> length xs"
  by (simp split: option.splits)

text \<open>
  C2. In every 200 answer of the history route the \<open>data\<close> array is ordered
  oldest first: the timestamps of its items, read in order, are ascending.
  When the query is answered, the limit parses to \<open>n\<close> and the coin has between
  1 and \<open>n\<close> stored documents, the answer is such a 200 answer, and the
  timestamps of its items are the timestamps of all stored documents of the
  coin in ascending order, a list that does not depend on the order in which
  the documents were inserted.
\<close>

theorem get_history_oldest_first:
  "(status (fst (get_history e cid limit st)) = 200 \<longrightarrow>
      (\<exists>items ts.
         field ''data'' (body (fst (get_history e cid limit st))) = JArr items \<and>
         map (field ''timestamp'') items = map JDate ts \<and> sorted ts)) \<and>
   (find_rejects e = None \<and>
    parseInt (case limit of None \<Rightarrow> ''24'' | Some s \<Rightarrow> s) = Some n \<and>
    1 \<le> length (stored_for cid st) \<and> int (length (stored_for cid st)) \<le> n \<longrightarrow>
      status (fst (get_history e cid limit st)) = 200 \<and>
      (\<exists>items.
         field ''data'' (body (fst (get_history e cid limit st))) = JArr items \<and>
         map (field ''timestamp'') items =
           map JDate (sort (map timestamp (stored_for cid st)))))"
proof (intro conjI impI)
  assume ok: "status (fst (get_history e cid limit st)) = 200"
  from get_history_200 [OF ok] obtain h where
    f: "History_find e st cid (parseInt (case limit of None \<Rightarrow> ''24'' | Some s \<Rightarrow> s)) = Inr h"
    and g: "get_history e cid limit st =
               (\<lparr>status = 200,
                 body = JObj [(''coinId'', JStr cid),
                              (''recordsCount'', JNum (of_nat (length h))),
                              (''data'', JArr (map JObj (rev h)))]\<rparr>, st)"
    by blast
  from History_find_Inr [OF f] obtain bound where
    h: "h = map select_fields
                  (case bound of
                     None \<Rightarrow> sort_key (\<lambda>r. - timestamp r) (stored_for cid st)
                   | Some n \<Rightarrow> take n (sort_key (\<lambda>r. - timestamp r) (stored_for cid st)))"
    by blast
  let ?rows = "case bound of
                 None \<Rightarrow> sort_key (\<lambda>r. - timestamp r) (stored_for cid st)
               | Some n \<Rightarrow> take n (sort_key (\<lambda>r. - timestamp r) (stored_for cid st))"
  let ?items = "map JObj (rev h)"
  let ?ts = "map timestamp (rev ?rows)"
  have "field ''data'' (body (fst (get_history e cid limit st))) = JArr ?items"
    using g by (simp add: js_get_def)
  moreover have "map (field ''timestamp'') ?items = map JDate ?ts"
    using h by (simp add: rev_map js_get_select_timestamp comp_def)
  moreover have "sorted ?ts"
    by (cases bound) (simp_all add: newest_first_oldest_last take_newest_oldest_last)
  ultimately show "\<exists>items ts.
         field ''data'' (body (fst (get_history e cid limit st))) = JArr items \<and>
         map (field ''timestamp'') items = map JDate ts \<and> sorted ts"
    by blast
next
  assume a: "find_rejects e = None \<and>
    parseInt (case limit of None \<Rightarrow> ''24'' | Some s \<Rightarrow> s) = Some n \<and>
    1 \<le> length (stored_for cid st) \<and> int (length (stored_for cid st)) \<le> n"
  let ?S = "sort_key (\<lambda>r. - timestamp r) (stored_for cid st)"
  from a have n: "0 < n" by linarith
  from a have "length (stored_for cid st) \<le> nat n" by linarith
  then have "take (nat n) ?S = ?S" by simp
  with a n have f: "History_find e st cid (parseInt (case limit of None \<Rightarrow> ''24'' | Some s \<Rightarrow> s)) =
      Inr (map select_fields ?S)"
    by (simp add: History_find_def query_limit_def stored_for_def)
  have ne: "stored_for cid st \<noteq> []"
    using a by auto
  have g: "get_history e cid limit st =
               (\<lparr>status = 200,
                 body = JObj [(''coinId'', JStr cid),
                              (''recordsCount'', JNum (of_nat (length (map select_fields ?S)))),
                              (''data'', JArr (map JObj (rev (map select_fields ?S))))]\<rparr>, st)"
    using f ne by (simp add: get_history_def sent_obj_def Let_def)
  then show "status (fst (get_history e cid limit st)) = 200" by simp
  have "field ''data'' (body (fst (get_history e cid limit st))) =
      JArr (map JObj (rev (map select_fields ?S)))"
    using g by (simp add: js_get_def)
  moreover have "map (field ''timestamp'') (map JObj (rev (map select_fields ?S))) =
      map JDate (sort (map timestamp (stored_for cid st)))"
  proof -
    have "map (field ''timestamp'') (map JObj (rev (map select_fields ?S))) =
        map JDate (map timestamp (rev ?S))"
      by (simp add: rev_map js_get_select_timestamp comp_def)
    then show ?thesis by (simp only: all_oldest_first)
  qed
  ultimately show "\<exists>items.
         field ''data'' (body (fst (get_history e cid limit st))) = JArr items \<and>
         map (field ''timestamp'') items =
           map JDate (sort (map timestamp (stored_for cid st)))"
    by blast
qed

lemma parseInt_default: "parseInt ''24'' = Some 24"
  by (simp add: parseInt_def is_ws_def digit_of_def)

lemma parseInt_zero: "parseInt ''0'' = Some 0"
  by (simp add: parseInt_def is_ws_def digit_of_def)

lemma stored_for_store3:
  "stored_for ''bitcoin'' store3 = [doc_a, doc_c]"
  "stored_for ''ethereum'' store3 = [doc_b]"
  "stored_for ''dogecoin'' store3 = []"
  by (simp_all add: stored_for_def store3_def doc_a_def doc_b_def doc_c_def)

theorem get_history_oldest_first_witness:
  "find_rejects env_up = None \<and> parseInt ''24'' = Some 24 \<and>
   length (stored_for ''bitcoin'' store3) = 2 \<and>
   status (fst (get_history env_up ''bitcoin'' None store3)) = 200 \<and>
   (\<exists>items.
      field ''data'' (body (fst (get_history env_up ''bitcoin'' None store3))) = JArr items \<and>
      map (field ''timestamp'') items = [JDate 1714550400000, JDate 1714554000000])"
proof -
  have h: "find_rejects env_up = None \<and>
      parseInt (case None of None \<Rightarrow> ''24'' | Some s \<Rightarrow> s) = Some 24 \<and>
      1 \<le> length (stored_for ''bitcoin'' store3) \<and>
      int (length (stored_for ''bitcoin'' store3)) \<le> 24"
    by (simp add: parseInt_default stored_for_store3 env_up_def)
  have s: "sort (map timestamp (stored_for ''bitcoin'' store3)) = [1714550400000, 1714554000000]"
    by (simp add: stored_for_store3 doc_a_def doc_c_def)
  from get_history_oldest_first [of env_up "''bitcoin''" None store3 24] h
  have "status (fst (get_history env_up ''bitcoin'' None store3)) = 200 \<and>
      (\<exists>items.
         field ''data'' (body (fst (get_history env_up ''bitcoin'' None store3))) = JArr items \<and>
         map (field ''timestamp'') items =
           map JDate (sort (map timestamp (stored_for ''bitcoin'' store3))))"
    by blast
  with h s show ?thesis by (simp add: stored_for_store3)
qed

text \<open>
  C3. When the query of the history route resolves and the coin has no stored
  document, the answer is 404 with the error, the message and the \<open>coinId\<close> of
  the request, and the collection is unchanged. No answer of the route, on any
  request, is a 200 with an empty \<open>data\<close> array.
\<close>

theorem get_history_not_found:
  "(History_find e st cid (parseInt (case limit of None \<Rightarrow> ''24'' | Some s \<Rightarrow> s)) = Inr h \<and>
    stored_for cid st = [] \<longrightarrow>
      get_history e cid limit st =
        (\<lparr>status = 404,
          body = JObj [(''error'', JStr ''No historical data found''),
                       (''message'', JStr (''No history found for '' @ cid @
                                          ''. Run POST /api/history first.'')),
                       (''coinId'', JStr cid)]\<rparr>, st)) \<and>
   \<not> (status (fst (get_history e cid limit st)) = 200 \<and>
      field ''data'' (body (fst (get_history e cid limit st))) = JArr [])"
proof (intro conjI impI)
  assume a: "History_find e st cid (parseInt (case limit of None \<Rightarrow> ''24'' | Some s \<Rightarrow> s)) = Inr h \<and>
    stored_for cid st = []"
  then have "History_find e st cid (parseInt (case limit of None \<Rightarrow> ''24'' | Some s \<Rightarrow> s)) = Inr h"
    and none: "stored_for cid st = []" by simp_all
  from History_find_Inr [OF this(1)] none have "h = []"
    by (auto split: option.splits)
  with a show "get_history e cid limit st =
        (\<lparr>status = 404,
          body = JObj [(''error'', JStr ''No historical data found''),
                       (''message'', JStr (''No history found for '' @ cid @
                                          ''. Run POST /api/history first.'')),
                       (''coinId'', JStr cid)]\<rparr>, st)"
    by (simp add: get_history_def sent_obj_def)
next
  show "\<not> (status (fst (get_history e cid limit st)) = 200 \<and>
      field ''data'' (body (fst (get_history e cid limit st))) = JArr [])"
  proof
    assume b: "status (fst (get_history e cid limit st)) = 200 \<and>
      field ''data'' (body (fst (get_history e cid limit st))) = JArr []"
    then obtain h' where "h' \<noteq> []" and
      "get_history e cid limit st =
               (\<lparr>status = 200,
                 body = JObj [(''coinId'', JStr cid),
                              (''recordsCount'', JNum (of_nat (length h'))),
                              (''data'', JArr (map JObj (rev h')))]\<rparr>, st)"
      using get_history_200 [of e cid limit st] by blast
    with b show False by (simp add: js_get_def)
  qed
qed

theorem get_history_not_found_witness:
  "History_find env_up store3 ''dogecoin'' (parseInt ''5'') = Inr [] \<and>
   stored_for ''dogecoin'' store3 = [] \<and>
   get_history env_up ''dogecoin'' (Some ''5'') store3 =
     (\<lparr>status = 404,
       body = JObj [(''error'', JStr ''No historical data found''),
                    (''message'',
                       JStr ''No history found for dogecoin. Run POST /api/history first.''),
                    (''coinId'', JStr ''dogecoin'')]\<rparr>, store3)"
proof -
  have p: "parseInt ''5'' = Some 5"
    by (simp add: parseInt_def is_ws_def digit_of_def)
  have f: "History_find env_up store3 ''dogecoin'' (parseInt ''5'') = Inr []"
    using stored_for_store3(3)
    by (simp add: p History_find_def query_limit_def env_up_def stored_for_def)
  from get_history_not_found [of env_up store3 "''dogecoin''" "Some ''5''" "[]"] f
  show ?thesis by (simp add: stored_for_store3)
qed

text \<open>
  C4, as stated, fails for \<open>limit=0\<close>: the coin has two stored documents, the
  limit parses to 0, and the 200 answer carries both, more than the limit.
\<close>

theorem get_history_count_counterexample:
  "parseInt ''0'' = Some 0 \<and>
   fst (get_history env_up ''bitcoin'' (Some ''0'') store3) =
     \<lparr>status = 200,
      body = JObj
        [(''coinId'', JStr ''bitcoin''),
         (''recordsCount'', JNum 2),
         (''data'', JArr
            [JObj [(''_id'', JObjectId 2), (''price'', JNum 63000),
                   (''timestamp'', JDate 1714550400000), (''change24h'', JNum (- 1))],
             JObj [(''_id'', JObjectId 0), (''price'', JNum 64000),
                   (''timestamp'', JDate 1714554000000), (''change24h'', JNum (1 / 2))]])]\<rparr> \<and>
   \<not> ((2::int) \<le> 0)"
  using stored_for_store3(1)
  by (simp add: parseInt_zero get_history_def History_find_def query_limit_def env_up_def
      stored_for_def select_fields_def sent_obj_def doc_a_def doc_c_def)

text \<open>
  C4, amended. In every 200 answer of the history route \<open>recordsCount\<close> is the
  length of the \<open>data\<close> array. That length is at most the limit when the limit
  parses to a positive integer, and at most 24 when the request has no \<open>limit\<close>
  parameter.
\<close>

theorem get_history_count:
  assumes "status (fst (get_history e cid limit st)) = 200"
  shows "\<exists>items.
           field ''data'' (body (fst (get_history e cid limit st))) = JArr items \<and>
           field ''recordsCount'' (body (fst (get_history e cid limit st))) =
             JNum (of_nat (length items)) \<and>
           (\<forall>n. parseInt (case limit of None \<Rightarrow> ''24'' | Some s \<Rightarrow> s) = Some n \<and> 0 < n \<longrightarrow>
                int (length items) \<le> n) \<and>
           (limit = None \<longrightarrow> length items \<le> 24)"
proof -
  let ?parsed = "parseInt (case limit of None \<Rightarrow> ''24'' | Some s \<Rightarrow> s)"
  from get_history_200 [OF assms] obtain h where
    f: "History_find e st cid ?parsed = Inr h"
    and g: "get_history e cid limit st =
               (\<lparr>status = 200,
                 body = JObj [(''coinId'', JStr cid),
                              (''recordsCount'', JNum (of_nat (length h))),
                              (''data'', JArr (map JObj (rev h)))]\<rparr>, st)"
    by blast
  from History_find_Inr [OF f] obtain bound where
    q: "query_limit e ?parsed = Inr bound" and
    h: "h = map select_fields
                  (case bound of
                     None \<Rightarrow> sort_key (\<lambda>r. - timestamp r) (stored_for cid st)
                   | Some n \<Rightarrow> take n (sort_key (\<lambda>r. - timestamp r) (stored_for cid st)))"
    by blast
  have bounded: "int (length h) \<le> n" if "?parsed = Some n" and "0 < n" for n
  proof -
    from that q have "bound = Some (nat n)" by (simp add: query_limit_def)
    with h have "length h \<le> nat n" by simp
    with that show ?thesis by linarith
  qed
  have "field ''data'' (body (fst (get_history e cid limit st))) = JArr (map JObj (rev h))"
    and "field ''recordsCount'' (body (fst (get_history e cid limit st))) =
           JNum (of_nat (length (map JObj (rev h))))"
    using g by (simp_all add: js_get_def)
  moreover have "\<forall>n. ?parsed = Some n \<and> 0 < n \<longrightarrow> int (length (map JObj (rev h))) \<le> n"
    using bounded by simp
  moreover have "limit = None \<longrightarrow> length (map JObj (rev h)) \<le> 24"
    using bounded [of 24] by (auto simp: parseInt_default)
  ultimately show ?thesis by blast
qed

theorem get_history_count_witness:
  "status (fst (get_history env_up ''bitcoin'' (Some ''1'') store3)) = 200 \<and>
   parseInt ''1'' = Some 1 \<and>
   (\<exists>items.
      field ''data'' (body (fst (get_history env_up ''bitcoin'' (Some ''1'') store3))) =
        JArr items \<and>
      field ''recordsCount'' (body (fst (get_history env_up ''bitcoin'' (Some ''1'') store3))) =
        JNum (of_nat (length items)) \<and>
      int (length items) \<le> 1) \<and>
   status (fst (get_history env_up ''bitcoin'' None store3)) = 200 \<and>
   (\<exists>items.
      field ''data'' (body (fst (get_history env_up ''bitcoin'' None store3))) = JArr items \<and>
      field ''recordsCount'' (body (fst (get_history env_up ''bitcoin'' None store3))) =
        JNum (of_nat (length items)) \<and>
      length items \<le> 24)"
proof -
  have p: "parseInt ''1'' = Some 1"
    by (simp add: parseInt_def is_ws_def digit_of_def)
  have ok: "status (fst (get_history env_up ''bitcoin'' (Some ''1'') store3)) = 200"
    using stored_for_store3(1)
    by (simp add: p get_history_def History_find_def query_limit_def env_up_def
        stored_for_def doc_a_def doc_c_def)
  have ok': "status (fst (get_history env_up ''bitcoin'' None store3)) = 200"
    using stored_for_store3(1)
    by (simp add: parseInt_default get_history_def History_find_def query_limit_def env_up_def
        stored_for_def doc_a_def doc_c_def)
  from get_history_count [OF ok] p
  have one: "\<exists>items.
      field ''data'' (body (fst (get_history env_up ''bitcoin'' (Some ''1'') store3))) =
        JArr items \<and>
      field ''recordsCount'' (body (fst (get_history env_up ''bitcoin'' (Some ''1'') store3))) =
        JNum (of_nat (length items)) \<and>
      int (length items) \<le> 1"
    by auto
  from get_history_count [OF ok']
  have dflt: "\<exists>items.
      field ''data'' (body (fst (get_history env_up ''bitcoin'' None store3))) = JArr items \<and>
      field ''recordsCount'' (body (fst (get_history env_up ''bitcoin'' None store3))) =
        JNum (of_nat (length items)) \<and>
      length items \<le> 24"
    by auto
  from ok p one ok' dflt show ?thesis by blast
qed

text \<open>
  C7, as stated, fails: the one item of this 200 answer has a field \<open>_id\<close>
  besides \<open>price\<close>, \<open>timestamp\<close> and \<open>change24h\<close>.
\<close>

theorem get_history_items_counterexample:
  "fst (get_history env_up ''ethereum'' None store3) =
     \<lparr>status = 200,
      body = JObj
        [(''coinId'', JStr ''ethereum''),
         (''recordsCount'', JNum 1),
         (''data'', JArr
            [JObj [(''_id'', JObjectId 1), (''price'', JNum 3000),
                   (''timestamp'', JDate 1714554000000), (''change24h'', JNum 2)]])]\<rparr> \<and>
   field ''_id'' (JObj [(''_id'', JObjectId 1), (''price'', JNum 3000),
                        (''timestamp'', JDate 1714554000000), (''change24h'', JNum 2)])
     = JObjectId 1 \<and>
   ''_id'' \<notin> set [''price'', ''timestamp'', ''change24h'']"
  using stored_for_store3(2)
  by (simp add: parseInt_default get_history_def History_find_def query_limit_def env_up_def
      stored_for_def select_fields_def sent_obj_def doc_b_def js_get_def)

text \<open>
  C7, amended. Every item of the \<open>data\<close> array of a 200 answer of the history
  route has exactly the fields \<open>_id\<close>, \<open>price\<close>, \<open>timestamp\<close> and \<open>change24h\<close>.
\<close>

theorem get_history_items:
  assumes "status (fst (get_history e cid limit st)) = 200"
  shows "\<exists>items.
           field ''data'' (body (fst (get_history e cid limit st))) = JArr items \<and>
           (\<forall>x\<in>set items. keys x = [''_id'', ''price'', ''timestamp'', ''change24h''])"
proof -
  let ?parsed = "parseInt (case limit of None \<Rightarrow> ''24'' | Some s \<Rightarrow> s)"
  from get_history_200 [OF assms] obtain h where
    f: "History_find e st cid ?parsed = Inr h"
    and g: "get_history e cid limit st =
               (\<lparr>status = 200,
                 body = JObj [(''coinId'', JStr cid),
                              (''recordsCount'', JNum (of_nat (length h))),
                              (''data'', JArr (map JObj (rev h)))]\<rparr>, st)"
    by blast
  from History_find_Inr [OF f] obtain rows where h: "h = map select_fields rows"
    by blast
  have "field ''data'' (body (fst (get_history e cid limit st))) = JArr (map JObj (rev h))"
    using g by (simp add: js_get_def)
  moreover have "\<forall>x\<in>set (map JObj (rev h)). keys x = [''_id'', ''price'', ''timestamp'', ''change24h'']"
    using h by (auto simp: select_fields_def)
  ultimately show ?thesis by blast
qed

theorem get_history_items_witness:
  "status (fst (get_history env_up ''ethereum'' None store3)) = 200 \<and>
   (\<exists>items.
      field ''data'' (body (fst (get_history env_up ''ethereum'' None store3))) = JArr items \<and>
      (\<forall>x\<in>set items. keys x = [''_id'', ''price'', ''timestamp'', ''change24h'']))"
proof -
  have ok: "status (fst (get_history env_up ''ethereum'' None store3)) = 200"
    using stored_for_store3(2)
    by (simp add: parseInt_default get_history_def History_find_def query_limit_def env_up_def
        stored_for_def doc_b_def)
  from get_history_items [OF ok] ok show ?thesis by blast
qed

text \<open>
  C10. When the limit parses to 0 the limit clause of the query puts no bound
  on the result. If the query is answered and the coin has stored documents,
  the answer is a 200 whose \<open>data\<close> array holds every stored document of the
  coin, each once, under the projection; its length is the number of those
  documents, which is more than the limit 0.
\<close>

theorem get_history_limit_zero:
  assumes "parseInt (case limit of None \<Rightarrow> ''24'' | Some s \<Rightarrow> s) = Some 0"
    and "find_rejects e = None"
    and "stored_for cid st \<noteq> []"
  shows "query_limit e (Some 0) = Inr None \<and>
         status (fst (get_history e cid limit st)) = 200 \<and>
         field ''recordsCount'' (body (fst (get_history e cid limit st))) =
           JNum (of_nat (length (stored_for cid st))) \<and>
         (\<exists>items.
            field ''data'' (body (fst (get_history e cid limit st))) = JArr items \<and>
            mset items = mset (map (\<lambda>r. JObj (select_fields r)) (stored_for cid st)) \<and>
            length items = length (stored_for cid st) \<and>
            0 < length items)"
proof -
  let ?S = "sort_key (\<lambda>r. - timestamp r) (stored_for cid st)"
  have q: "query_limit e (Some 0) = Inr None" by (simp add: query_limit_def)
  have f: "History_find e st cid (parseInt (case limit of None \<Rightarrow> ''24'' | Some s \<Rightarrow> s)) =
      Inr (map select_fields ?S)"
    using assms(1,2) q by (simp add: History_find_def stored_for_def)
  have g: "get_history e cid limit st =
               (\<lparr>status = 200,
                 body = JObj [(''coinId'', JStr cid),
                              (''recordsCount'', JNum (of_nat (length (stored_for cid st)))),
                              (''data'', JArr (map JObj (rev (map select_fields ?S))))]\<rparr>, st)"
    using f assms(3) by (simp add: get_history_def sent_obj_def Let_def)
  let ?items = "map JObj (rev (map select_fields ?S))"
  have "field ''data'' (body (fst (get_history e cid limit st))) = JArr ?items"
    and "field ''recordsCount'' (body (fst (get_history e cid limit st))) =
           JNum (of_nat (length (stored_for cid st)))"
    and "status (fst (get_history e cid limit st)) = 200"
    using g by (simp_all add: js_get_def)
  moreover have "mset ?items = mset (map (\<lambda>r. JObj (select_fields r)) (stored_for cid st))"
  proof -
    have "mset ?items = image_mset (\<lambda>r. JObj (select_fields r)) (mset ?S)"
      by (simp add: multiset.map_comp comp_def)
    then show ?thesis by simp
  qed
  moreover have "length ?items = length (stored_for cid st)" by simp
  moreover have "0 < length ?items" using assms(3) by simp
  ultimately show ?thesis using q by blast
qed

theorem get_history_limit_zero_witness:
  "parseInt ''0'' = Some 0 \<and> find_rejects env_up = None \<and>
   stored_for ''bitcoin'' store3 = [doc_a, doc_c] \<and>
   status (fst (get_history env_up ''bitcoin'' (Some ''0'') store3)) = 200 \<and>
   field ''recordsCount'' (body (fst (get_history env_up ''bitcoin'' (Some ''0'') store3))) =
     JNum 2 \<and>
   (\<exists>items.
      field ''data'' (body (fst (get_history env_up ''bitcoin'' (Some ''0'') store3))) =
        JArr items \<and> length items = 2)"
proof -
  have p: "parseInt (case Some ''0'' of None \<Rightarrow> ''24'' | Some s \<Rightarrow> s) = Some 0"
    by (simp add: parseInt_zero)
  have r: "find_rejects env_up = None" by (simp add: env_up_def)
  have n: "stored_for ''bitcoin'' store3 \<noteq> []" by (simp add: stored_for_store3)
  from get_history_limit_zero [OF p r n] r show ?thesis
    by (auto simp: parseInt_zero stored_for_store3)
qed

end
